theory Spec2Isabelle
  imports Main "HOL-Library.Sublist"
begin

section \<open>The add-on manager of \<^verbatim>\<open>scrapy/addons.py\<close>\<close>

subsection \<open>Data model\<close>

text \<open>
  The settings object is a key-value store; \<^verbatim>\<open>settings["ADDONS"]\<close> reads the entry
  \<^verbatim>\<open>ADDONS\<close>, a missing entry reads as Python's \<^verbatim>\<open>None\<close> (here \<open>None\<close>).
\<close>

type_synonym 'v settings = "string \<Rightarrow> 'v option"

text \<open>
  Exceptions. \<^verbatim>\<open>NotConfigured\<close> carries its \<^verbatim>\<open>args\<close> tuple, every other
  exception is an \<open>Error\<close> with a description.
\<close>

datatype exn = NotConfigured "string list" | Error string

text \<open>
  The observable calls made by the manager, in program order. A hook event records the
  state of the settings object at the moment the hook is called.
\<close>

datatype ('v, 'a) event =
    LoadObject string
  | BuildFromCrawler string
  | UpdateSettings string "'v settings"
  | UpdatePreCrawlerSettings string "'v settings"
  | LogWarning string string
  | LogInfo "'a list"

text \<open>
  The collaborators imported by the module, taken as parameters:
  \<^item> \<open>build_component_list\<close> applied to the value of \<^verbatim>\<open>ADDONS\<close> returns the ordered class
    paths or raises;
  \<^item> \<open>load_object\<close> resolves a class path to a class or raises;
  \<^item> \<open>build_from_crawler\<close> runs the constructor of the class with the crawler; the
    constructor may write to the settings before it returns or raises;
  \<^item> \<open>update_settings\<close> is \<open>Some hook\<close> when \<^verbatim>\<open>hasattr(addon, "update_settings")\<close>;
  \<^item> \<open>update_pre_crawler_settings\<close> is \<open>Some hook\<close> when the class has that attribute.
  A hook receives the settings and leaves them changed, also when it raises
  (\<open>Some e\<close>); \<open>None\<close> is a normal return.
\<close>

record ('v, 'c, 'a, 'k) env =
  build_component_list :: "'v option \<Rightarrow> exn + string list"
  load_object :: "string \<Rightarrow> exn + 'c"
  build_from_crawler :: "'c \<Rightarrow> 'k \<Rightarrow> 'v settings \<Rightarrow> (exn + 'a) \<times> 'v settings"
  update_settings :: "'a \<Rightarrow> ('v settings \<Rightarrow> exn option \<times> 'v settings) option"
  update_pre_crawler_settings :: "'c \<Rightarrow> ('v settings \<Rightarrow> exn option \<times> 'v settings) option"

text \<open>The manager object: \<^verbatim>\<open>self.crawler\<close> and \<^verbatim>\<open>self.addons\<close>.\<close>

record ('a, 'k) manager =
  crawler :: 'k
  addons :: "'a list"

text \<open>What the manager acts on: the settings object and the calls made so far.\<close>

record ('v, 'a) world =
  settings :: "'v settings"
  events :: "('v, 'a) event list"

subsection \<open>Operations\<close>

text \<open>\<^verbatim>\<open>AddonManager.__init__\<close>\<close>

definition AddonManager_init :: "'k \<Rightarrow> ('a, 'k) manager" where
  "AddonManager_init c = \<lparr>crawler = c, addons = []\<rparr>"

definition emit :: "('v, 'a) event list \<Rightarrow> ('v, 'a) world \<Rightarrow> ('v, 'a) world" where
  "emit es w = w\<lparr>events := events w @ es\<rparr>"

text \<open>
  The \<^verbatim>\<open>except NotConfigured as e\<close> clause of \<^verbatim>\<open>load_settings\<close>: the exception is
  swallowed, with a warning when \<^verbatim>\<open>e.args\<close> is not empty; any other exception
  is not handled and leaves the loop.
\<close>

fun except_NotConfigured ::
  "string \<Rightarrow> exn \<Rightarrow> ('a, 'k) manager \<Rightarrow> ('v, 'a) world
    \<Rightarrow> exn option \<times> ('a, 'k) manager \<times> ('v, 'a) world" where
  "except_NotConfigured clspath (NotConfigured args) self w =
     (None, self, if args \<noteq> [] then emit [LogWarning clspath (hd args)] w else w)"
| "except_NotConfigured clspath (Error x) self w = (Some (Error x), self, w)"

text \<open>One iteration of the loop of \<^verbatim>\<open>load_settings\<close>: the \<^verbatim>\<open>try\<close> statement.\<close>

definition load_settings_step ::
  "('v, 'c, 'a, 'k) env \<Rightarrow> string \<Rightarrow> ('a, 'k) manager \<Rightarrow> ('v, 'a) world
    \<Rightarrow> exn option \<times> ('a, 'k) manager \<times> ('v, 'a) world" where
  "load_settings_step env clspath self w =
     (let w0 = emit [LoadObject clspath] w in
      case load_object env clspath of
        Inl e \<Rightarrow> except_NotConfigured clspath e self w0
      | Inr addoncls \<Rightarrow>
          (let w1 = emit [BuildFromCrawler clspath] w0 in
           case build_from_crawler env addoncls (crawler self) (settings w1) of
             (Inl e, s1) \<Rightarrow> except_NotConfigured clspath e self (w1\<lparr>settings := s1\<rparr>)
           | (Inr addon, s1) \<Rightarrow>
               (case update_settings env addon of
                  None \<Rightarrow>
                    (None, self\<lparr>addons := addons self @ [addon]\<rparr>, w1\<lparr>settings := s1\<rparr>)
                | Some hook \<Rightarrow>
                    (let w2 = emit [UpdateSettings clspath s1] (w1\<lparr>settings := s1\<rparr>) in
                     case hook s1 of
                       (Some e, s2) \<Rightarrow> except_NotConfigured clspath e self (w2\<lparr>settings := s2\<rparr>)
                     | (None, s2) \<Rightarrow>
                         (None, self\<lparr>addons := addons self @ [addon]\<rparr>,
                          w2\<lparr>settings := s2\<rparr>)))))"

text \<open>The \<^verbatim>\<open>for\<close> loop of \<^verbatim>\<open>load_settings\<close>; an exception that is not handled ends it.\<close>

fun load_settings_loop ::
  "('v, 'c, 'a, 'k) env \<Rightarrow> string list \<Rightarrow> ('a, 'k) manager \<Rightarrow> ('v, 'a) world
    \<Rightarrow> exn option \<times> ('a, 'k) manager \<times> ('v, 'a) world" where
  "load_settings_loop env [] self w = (None, self, w)"
| "load_settings_loop env (clspath # rest) self w =
     (case load_settings_step env clspath self w of
        (Some e, self', w') \<Rightarrow> (Some e, self', w')
      | (None, self', w') \<Rightarrow> load_settings_loop env rest self' w')"

text \<open>The \<^verbatim>\<open>logger.info\<close> call after the loop, reached only when the loop ends normally.\<close>

fun log_enabled ::
  "exn option \<times> ('a, 'k) manager \<times> ('v, 'a) world
    \<Rightarrow> exn option \<times> ('a, 'k) manager \<times> ('v, 'a) world" where
  "log_enabled (None, self, w) = (None, self, emit [LogInfo (addons self)] w)"
| "log_enabled (Some e, self, w) = (Some e, self, w)"

text \<open>
  \<^verbatim>\<open>AddonManager.load_settings(self, settings)\<close>. The list of class paths is computed
  once, from the settings as they are at the call, before the first iteration.
\<close>

definition load_settings ::
  "('v, 'c, 'a, 'k) env \<Rightarrow> ('a, 'k) manager \<Rightarrow> ('v, 'a) world
    \<Rightarrow> exn option \<times> ('a, 'k) manager \<times> ('v, 'a) world" where
  "load_settings env self w =
     (case build_component_list env (settings w ''ADDONS'') of
        Inl e \<Rightarrow> (Some e, self, w)
      | Inr clspaths \<Rightarrow> log_enabled (load_settings_loop env clspaths self w))"

text \<open>One iteration of the loop of \<^verbatim>\<open>load_pre_crawler_settings\<close>; nothing is caught.\<close>

definition load_pre_crawler_settings_step ::
  "('v, 'c, 'a, 'k) env \<Rightarrow> string \<Rightarrow> ('v, 'a) world \<Rightarrow> exn option \<times> ('v, 'a) world" where
  "load_pre_crawler_settings_step env clspath w =
     (let w0 = emit [LoadObject clspath] w in
      case load_object env clspath of
        Inl e \<Rightarrow> (Some e, w0)
      | Inr addoncls \<Rightarrow>
          (case update_pre_crawler_settings env addoncls of
             None \<Rightarrow> (None, w0)
           | Some hook \<Rightarrow>
               (let w1 = emit [UpdatePreCrawlerSettings clspath (settings w0)] w0 in
                case hook (settings w0) of (r, s1) \<Rightarrow> (r, w1\<lparr>settings := s1\<rparr>))))"

fun load_pre_crawler_settings_loop ::
  "('v, 'c, 'a, 'k) env \<Rightarrow> string list \<Rightarrow> ('v, 'a) world \<Rightarrow> exn option \<times> ('v, 'a) world" where
  "load_pre_crawler_settings_loop env [] w = (None, w)"
| "load_pre_crawler_settings_loop env (clspath # rest) w =
     (case load_pre_crawler_settings_step env clspath w of
        (Some e, w') \<Rightarrow> (Some e, w')
      | (None, w') \<Rightarrow> load_pre_crawler_settings_loop env rest w')"

text \<open>
  \<^verbatim>\<open>AddonManager.load_pre_crawler_settings(cls, settings)\<close>, a class method: it
  receives the settings and no manager instance.
\<close>

definition load_pre_crawler_settings ::
  "('v, 'c, 'a, 'k) env \<Rightarrow> ('v, 'a) world \<Rightarrow> exn option \<times> ('v, 'a) world" where
  "load_pre_crawler_settings env w =
     (case build_component_list env (settings w ''ADDONS'') of
        Inl e \<Rightarrow> (Some e, w)
      | Inr clspaths \<Rightarrow> load_pre_crawler_settings_loop env clspaths w)"

subsection \<open>Reading the record of calls\<close>

text \<open>The class paths given to \<open>load_object\<close>, one per iteration started.\<close>

fun loaded_ids :: "('v, 'a) event list \<Rightarrow> string list" where
  "loaded_ids [] = []"
| "loaded_ids (LoadObject p # es) = p # loaded_ids es"
| "loaded_ids (_ # es) = loaded_ids es"

text \<open>The class paths whose hook was called, for each of the two hooks.\<close>

fun hooked_ids :: "('v, 'a) event list \<Rightarrow> string list" where
  "hooked_ids [] = []"
| "hooked_ids (UpdateSettings p s # es) = p # hooked_ids es"
| "hooked_ids (_ # es) = hooked_ids es"

fun pre_hooked_ids :: "('v, 'a) event list \<Rightarrow> string list" where
  "pre_hooked_ids [] = []"
| "pre_hooked_ids (UpdatePreCrawlerSettings p s # es) = p # pre_hooked_ids es"
| "pre_hooked_ids (_ # es) = pre_hooked_ids es"

text \<open>The calls that \<^verbatim>\<open>load_pre_crawler_settings\<close> can make.\<close>

fun is_pre_crawler_event :: "('v, 'a) event \<Rightarrow> bool" where
  "is_pre_crawler_event (LoadObject p) = True"
| "is_pre_crawler_event (UpdatePreCrawlerSettings p s) = True"
| "is_pre_crawler_event _ = False"

text \<open>
  A call of the class method while a manager object exists: the method is given the
  class and the settings, the manager is not among its arguments.
\<close>

definition classmethod_load_pre_crawler_settings ::
  "('v, 'c, 'a, 'k) env \<Rightarrow> ('a, 'k) manager \<Rightarrow> ('v, 'a) world
    \<Rightarrow> exn option \<times> ('a, 'k) manager \<times> ('v, 'a) world" where
  "classmethod_load_pre_crawler_settings env self w =
     (case load_pre_crawler_settings env w of (r, w') \<Rightarrow> (r, self, w'))"

subsection \<open>A concrete installation\<close>

text \<open>Setting values of the examples: a priority mapping, a flag or a number.\<close>

datatype setting = Priorities "(string \<times> int) list" | Flag bool | Number int

text \<open>
  Modelled from the spec: the component resolver \<^verbatim>\<open>build_component_list\<close> of
  \<^verbatim>\<open>scrapy.utils.conf\<close>, which is not part of the module. It turns the priority
  mapping into the sequence of its identifiers, in ascending order of priority.
\<close>

definition resolve :: "setting option \<Rightarrow> exn + string list" where
  "resolve v =
     (case v of
        Some (Priorities d) \<Rightarrow> Inr (map fst (sort_key snd d))
      | _ \<Rightarrow> Inl (Error ''ADDONS is not a priority mapping''))"

text \<open>
  Seven add-ons. Classes and instances are named by strings; the crawler is \<open>()\<close>.
  \<^item> \<^verbatim>\<open>pkg.Alpha\<close>: the constructor raises \<^verbatim>\<open>NotConfigured("no optional dependency")\<close>.
  \<^item> \<^verbatim>\<open>pkg.Beta\<close>: \<open>update_settings\<close> sets \<^verbatim>\<open>ENABLED_FEATURE\<close>, the class hook sets \<^verbatim>\<open>K\<close> to 1.
  \<^item> \<^verbatim>\<open>pkg.Gamma\<close>: \<open>update_settings\<close> copies \<^verbatim>\<open>ENABLED_FEATURE\<close> to \<^verbatim>\<open>SEEN\<close>, the class
    hook copies \<^verbatim>\<open>K\<close> to \<^verbatim>\<open>SEEN\<close>.
  \<^item> \<^verbatim>\<open>pkg.Plain\<close>: no hook at all.
  \<^item> \<^verbatim>\<open>pkg.Lazy\<close>: importing it raises \<^verbatim>\<open>NotConfigured("import-time opt-out")\<close>.
  \<^item> \<^verbatim>\<open>pkg.Broken\<close>: \<open>update_settings\<close> raises an error after writing \<^verbatim>\<open>HALF\<close>, the
    class hook raises \<^verbatim>\<open>NotConfigured("not now")\<close>.
  \<^item> \<^verbatim>\<open>pkg.Shy\<close>: \<open>update_settings\<close> raises \<^verbatim>\<open>NotConfigured()\<close>, without a reason; the class
    hook sets \<^verbatim>\<open>OTHER\<close>.
  Every other class path cannot be imported.
\<close>

definition demo_load_object :: "string \<Rightarrow> exn + string" where
  "demo_load_object p =
     (if p = ''pkg.Alpha'' then Inr ''Alpha''
      else if p = ''pkg.Beta'' then Inr ''Beta''
      else if p = ''pkg.Gamma'' then Inr ''Gamma''
      else if p = ''pkg.Plain'' then Inr ''Plain''
      else if p = ''pkg.Broken'' then Inr ''Broken''
      else if p = ''pkg.Shy'' then Inr ''Shy''
      else if p = ''pkg.Lazy'' then Inl (NotConfigured [''import-time opt-out''])
      else Inl (Error ''cannot import''))"

definition demo_build_from_crawler ::
  "string \<Rightarrow> unit \<Rightarrow> setting settings \<Rightarrow> (exn + string) \<times> setting settings" where
  "demo_build_from_crawler c k s =
     (if c = ''Alpha'' then (Inl (NotConfigured [''no optional dependency'']), s)
      else (Inr (c @ ''Instance''), s))"

definition demo_update_settings ::
  "string \<Rightarrow> (setting settings \<Rightarrow> exn option \<times> setting settings) option" where
  "demo_update_settings a =
     (if a = ''BetaInstance'' then Some (\<lambda>s. (None, s(''ENABLED_FEATURE'' \<mapsto> Flag True)))
      else if a = ''GammaInstance'' then Some (\<lambda>s. (None, s(''SEEN'' := s ''ENABLED_FEATURE'')))
      else if a = ''BrokenInstance''
        then Some (\<lambda>s. (Some (Error ''boom''), s(''HALF'' \<mapsto> Flag True)))
      else if a = ''ShyInstance'' then Some (\<lambda>s. (Some (NotConfigured []), s))
      else None)"

definition demo_update_pre_crawler_settings ::
  "string \<Rightarrow> (setting settings \<Rightarrow> exn option \<times> setting settings) option" where
  "demo_update_pre_crawler_settings c =
     (if c = ''Beta'' then Some (\<lambda>s. (None, s(''K'' \<mapsto> Number 1)))
      else if c = ''Gamma'' then Some (\<lambda>s. (None, s(''SEEN'' := s ''K'')))
      else if c = ''Broken'' then Some (\<lambda>s. (Some (NotConfigured [''not now'']), s))
      else if c = ''Shy'' then Some (\<lambda>s. (None, s(''OTHER'' \<mapsto> Number 0)))
      else None)"

definition demo_env :: "(setting, string, string, unit) env" where
  "demo_env =
     \<lparr>build_component_list = resolve,
      load_object = demo_load_object,
      build_from_crawler = demo_build_from_crawler,
      update_settings = demo_update_settings,
      update_pre_crawler_settings = demo_update_pre_crawler_settings\<rparr>"

text \<open>The settings that hold only the entry \<^verbatim>\<open>ADDONS\<close>, before any call.\<close>

definition demo_world :: "(string \<times> int) list \<Rightarrow> (setting, string) world" where
  "demo_world d = \<lparr>settings = [''ADDONS'' \<mapsto> Priorities d], events = []\<rparr>"

subsection \<open>Add-ons that leave a property of the settings alone\<close>



subsection \<open>What an add-on exposes and what it can raise\<close>




section \<open>Properties\<close>

lemmas demo_defs =
  demo_env_def demo_world_def resolve_def demo_load_object_def demo_build_from_crawler_def
  demo_update_settings_def demo_update_pre_crawler_settings_def

subsection \<open>The record of calls\<close>

lemma loaded_ids_append: "loaded_ids (xs @ ys) = loaded_ids xs @ loaded_ids ys"
  by (induction xs rule: loaded_ids.induct) simp_all

lemma hooked_ids_append: "hooked_ids (xs @ ys) = hooked_ids xs @ hooked_ids ys"
  by (induction xs rule: hooked_ids.induct) simp_all

lemma pre_hooked_ids_append:
  "pre_hooked_ids (xs @ ys) = pre_hooked_ids xs @ pre_hooked_ids ys"
  by (induction xs rule: pre_hooked_ids.induct) simp_all

subsection \<open>Sequencing of the loops\<close>

lemma load_settings_loop_append:
  "load_settings_loop env (xs @ ys) self w =
     (case load_settings_loop env xs self w of
        (Some e, self', w') \<Rightarrow> (Some e, self', w')
      | (None, self', w') \<Rightarrow> load_settings_loop env ys self' w')"
  by (induction xs arbitrary: self w) (auto split: prod.splits option.splits)

lemma load_pre_crawler_settings_loop_append:
  "load_pre_crawler_settings_loop env (xs @ ys) w =
     (case load_pre_crawler_settings_loop env xs w of
        (Some e, w') \<Rightarrow> (Some e, w')
      | (None, w') \<Rightarrow> load_pre_crawler_settings_loop env ys w')"
  by (induction xs arbitrary: w) (auto split: prod.splits option.splits)

subsection \<open>What one iteration and one loop can do\<close>

lemma except_NotConfigured_shape:
  "except_NotConfigured x e self w = (r, self', w') \<Longrightarrow>
     self' = self \<and> settings w' = settings w \<and>
     (\<exists>es. events w' = events w @ es \<and> loaded_ids es = [] \<and> hooked_ids es = []
        \<and> pre_hooked_ids es = []) \<and>
     (case e of NotConfigured args \<Rightarrow> r = None | Error m \<Rightarrow> r = Some (Error m))"
  by (cases e) (auto simp: emit_def split: if_splits)

lemma load_settings_step_shape:
  assumes "load_settings_step env x self w = (r, self', w')"
  shows "crawler self' = crawler self"
    and "\<exists>new. addons self' = addons self @ new \<and> (r \<noteq> None \<longrightarrow> new = [])"
    and "\<exists>es. events w' = events w @ es \<and> loaded_ids es = [x]
           \<and> (hooked_ids es = [] \<or> hooked_ids es = [x])"
    and "\<forall>args. r \<noteq> Some (NotConfigured args)"
  using assms
  unfolding load_settings_step_def Let_def
  by (auto simp: emit_def split: sum.splits prod.splits option.splits exn.splits
        dest!: except_NotConfigured_shape)

lemma load_pre_crawler_settings_step_shape:
  assumes "load_pre_crawler_settings_step env x w = (r, w')"
  shows "\<exists>es. events w' = events w @ es \<and> loaded_ids es = [x]
           \<and> (pre_hooked_ids es = [] \<or> pre_hooked_ids es = [x])
           \<and> list_all is_pre_crawler_event es
           \<and> (pre_hooked_ids es = [] \<longrightarrow> settings w' = settings w)"
  using assms
  unfolding load_pre_crawler_settings_step_def Let_def
  by (auto simp: emit_def split: sum.splits prod.splits option.splits)

lemma load_pre_crawler_settings_loop_shape:
  "load_pre_crawler_settings_loop env xs w = (r, w') \<Longrightarrow>
     \<exists>es. events w' = events w @ es \<and> prefix (loaded_ids es) xs
        \<and> subseq (pre_hooked_ids es) (loaded_ids es)
        \<and> (r = None \<longrightarrow> loaded_ids es = xs)
        \<and> list_all is_pre_crawler_event es
        \<and> (pre_hooked_ids es = [] \<longrightarrow> settings w' = settings w)"
proof (induction xs arbitrary: w)
  case Nil
  then show ?case by simp
next
  case (Cons x xs)
  obtain r1 w1 where step: "load_pre_crawler_settings_step env x w = (r1, w1)"
    by (cases "load_pre_crawler_settings_step env x w")
  from load_pre_crawler_settings_step_shape [OF step]
  obtain es1 where es1: "events w1 = events w @ es1" "loaded_ids es1 = [x]"
      "pre_hooked_ids es1 = [] \<or> pre_hooked_ids es1 = [x]"
      "list_all is_pre_crawler_event es1"
      "pre_hooked_ids es1 = [] \<longrightarrow> settings w1 = settings w"
    by blast
  have sub1: "subseq (pre_hooked_ids es1) (loaded_ids es1)"
    using es1(2,3) by auto
  show ?case
  proof (cases r1)
    case (Some e)
    with Cons.prems step have "r = Some e" "w' = w1" by simp_all
    with es1 sub1 show ?thesis by auto
  next
    case None
    with Cons.prems step have rest: "load_pre_crawler_settings_loop env xs w1 = (r, w')"
      by simp
    from Cons.IH [OF rest] obtain es2 where es2: "events w' = events w1 @ es2"
        "prefix (loaded_ids es2) xs" "subseq (pre_hooked_ids es2) (loaded_ids es2)"
        "r = None \<longrightarrow> loaded_ids es2 = xs" "list_all is_pre_crawler_event es2"
        "pre_hooked_ids es2 = [] \<longrightarrow> settings w' = settings w1"
      by blast
    have "events w' = events w @ (es1 @ es2)"
      using es1(1) es2(1) by simp
    moreover have "prefix (loaded_ids (es1 @ es2)) (x # xs)"
      using es1(2) es2(2) by (simp add: loaded_ids_append)
    moreover have "subseq (pre_hooked_ids (es1 @ es2)) (loaded_ids (es1 @ es2))"
      using sub1 es2(3)
      by (simp add: loaded_ids_append pre_hooked_ids_append list_emb_append_mono)
    moreover have "r = None \<longrightarrow> loaded_ids (es1 @ es2) = x # xs"
      using es1(2) es2(4) by (simp add: loaded_ids_append)
    moreover have "list_all is_pre_crawler_event (es1 @ es2)"
      using es1(4) es2(5) by simp
    moreover have "pre_hooked_ids (es1 @ es2) = [] \<longrightarrow> settings w' = settings w"
      using es1(5) es2(6) by (simp add: pre_hooked_ids_append)
    ultimately show ?thesis by blast
  qed
qed

lemma load_settings_loop_shape:
  "load_settings_loop env xs self w = (r, self', w') \<Longrightarrow>
     crawler self' = crawler self \<and> prefix (addons self) (addons self') \<and>
     (\<forall>args. r \<noteq> Some (NotConfigured args)) \<and>
     (\<exists>es. events w' = events w @ es \<and> prefix (loaded_ids es) xs
        \<and> subseq (hooked_ids es) (loaded_ids es)
        \<and> (r = None \<longrightarrow> loaded_ids es = xs))"
proof (induction xs arbitrary: self w)
  case Nil
  then show ?case by simp
next
  case (Cons x xs)
  obtain r1 self1 w1 where step: "load_settings_step env x self w = (r1, self1, w1)"
    by (cases "load_settings_step env x self w")
  note sh = load_settings_step_shape [OF step]
  from sh(3) obtain es1 where es1: "events w1 = events w @ es1" "loaded_ids es1 = [x]"
      "hooked_ids es1 = [] \<or> hooked_ids es1 = [x]"
    by blast
  have sub1: "subseq (hooked_ids es1) (loaded_ids es1)"
    using es1(2,3) by auto
  from sh(2) have pre1: "prefix (addons self) (addons self1)"
    by auto
  show ?case
  proof (cases r1)
    case (Some e)
    with Cons.prems step have "r = Some e" "w' = w1" "self' = self1" by simp_all
    with es1 sub1 sh(1,4) pre1 Some show ?thesis by auto
  next
    case None
    with Cons.prems step have rest: "load_settings_loop env xs self1 w1 = (r, self', w')"
      by simp
    from Cons.IH [OF rest] obtain es2 where es2: "events w' = events w1 @ es2"
        "prefix (loaded_ids es2) xs" "subseq (hooked_ids es2) (loaded_ids es2)"
        "r = None \<longrightarrow> loaded_ids es2 = xs"
      and fr: "crawler self' = crawler self1" "prefix (addons self1) (addons self')"
        "\<forall>args. r \<noteq> Some (NotConfigured args)"
      by blast
    have "events w' = events w @ (es1 @ es2)"
      using es1(1) es2(1) by simp
    moreover have "prefix (loaded_ids (es1 @ es2)) (x # xs)"
      using es1(2) es2(2) by (simp add: loaded_ids_append)
    moreover have "subseq (hooked_ids (es1 @ es2)) (loaded_ids (es1 @ es2))"
      using sub1 es2(3)
      by (simp add: loaded_ids_append hooked_ids_append list_emb_append_mono)
    moreover have "r = None \<longrightarrow> loaded_ids (es1 @ es2) = x # xs"
      using es1(2) es2(4) by (simp add: loaded_ids_append)
    moreover have "prefix (addons self) (addons self')"
      using pre1 fr(2) by (rule prefix_order.trans)
    ultimately show ?thesis using fr(1,3) sh(1) by auto
  qed
qed

text \<open>
  The loop of \<^verbatim>\<open>load_settings\<close> never reads \<^verbatim>\<open>self.addons\<close>: what it appends does not
  depend on what the list already holds.
\<close>

lemma load_settings_step_addons:
  "load_settings_step env x self w = (r, self', w') \<Longrightarrow>
   load_settings_step env x (self\<lparr>addons := old @ addons self\<rparr>) w =
     (r, self'\<lparr>addons := old @ addons self'\<rparr>, w')"
  unfolding load_settings_step_def Let_def
  by (cases "load_object env x")
     (auto split: sum.splits prod.splits option.splits exn.splits if_splits
           elim!: except_NotConfigured.elims)

lemma load_settings_loop_addons:
  "load_settings_loop env xs self w = (r, self', w') \<Longrightarrow>
   load_settings_loop env xs (self\<lparr>addons := old @ addons self\<rparr>) w =
     (r, self'\<lparr>addons := old @ addons self'\<rparr>, w')"
proof (induction xs arbitrary: self w)
  case Nil
  then show ?case by auto
next
  case (Cons x xs)
  obtain r1 self1 w1 where step: "load_settings_step env x self w = (r1, self1, w1)"
    by (cases "load_settings_step env x self w")
  note step' = load_settings_step_addons [OF step, of old]
  show ?case
  proof (cases r1)
    case (Some e)
    with Cons.prems step step' show ?thesis by auto
  next
    case None
    with Cons.prems step have "load_settings_loop env xs self1 w1 = (r, self', w')"
      by simp
    from Cons.IH [OF this] step' None show ?thesis by simp
  qed
qed

lemma log_enabled_fst [simp]: "fst (log_enabled t) = fst t"
  by (cases t rule: log_enabled.cases) simp_all

lemma log_enabled_manager [simp]: "fst (snd (log_enabled t)) = fst (snd t)"
  by (cases t rule: log_enabled.cases) simp_all

lemma log_enabled_settings [simp]: "settings (snd (snd (log_enabled t))) = settings (snd (snd t))"
  by (cases t rule: log_enabled.cases) (simp_all add: emit_def)

lemma load_settings_addons_split:
  "addons (fst (snd (load_settings env self w))) =
     addons self @ addons (fst (snd (load_settings env (self\<lparr>addons := []\<rparr>) w)))"
proof (cases "build_component_list env (settings w ''ADDONS'')")
  case (Inl e)
  then show ?thesis by (simp add: load_settings_def)
next
  case (Inr xs)
  obtain r self' w' where
    run: "load_settings_loop env xs (self\<lparr>addons := []\<rparr>) w = (r, self', w')"
    by (cases "load_settings_loop env xs (self\<lparr>addons := []\<rparr>) w")
  from load_settings_loop_addons [OF run, of "addons self"]
  have "load_settings_loop env xs self w = (r, self'\<lparr>addons := addons self @ addons self'\<rparr>, w')"
    by simp
  with run Inr show ?thesis by (simp add: load_settings_def)
qed

subsection \<open>The list of active add-ons only grows\<close>

text \<open>
  C10. \<^verbatim>\<open>self.addons\<close> is empty after \<^verbatim>\<open>__init__\<close>, and \<^verbatim>\<open>load_settings\<close> only appends to
  it: whatever the outcome of a call, the list after the call is the list before it,
  unchanged and in the same order, followed by what the same call appends on an empty
  list. So the list left by a first call is a prefix of the list left by a second call
  on the same manager.
\<close>

theorem load_settings_only_appends:
  "addons (AddonManager_init k :: ('a, 'k) manager) = [] \<and>
   addons (fst (snd (load_settings env self w))) =
     addons self @ addons (fst (snd (load_settings env (self\<lparr>addons := []\<rparr>) w))) \<and>
   prefix (addons (fst (snd (load_settings env self w))))
     (addons (fst (snd (load_settings env (fst (snd (load_settings env self w))) w'))))"
proof -
  have "addons (AddonManager_init k :: ('a, 'k) manager) = []"
    by (simp add: AddonManager_init_def)
  moreover note load_settings_addons_split [of env self w]
  moreover have "prefix (addons (fst (snd (load_settings env self w))))
     (addons (fst (snd (load_settings env (fst (snd (load_settings env self w))) w'))))"
    using load_settings_addons_split [of env "fst (snd (load_settings env self w))" w']
    by simp
  ultimately show ?thesis by blast
qed

subsection \<open>Unfolding a call\<close>

lemmas run_defs =
  load_settings_def load_settings_step_def load_pre_crawler_settings_def
  load_pre_crawler_settings_step_def classmethod_load_pre_crawler_settings_def
  AddonManager_init_def emit_def Let_def

subsection \<open>The class method leaves the manager alone\<close>

text \<open>
  C7. \<^verbatim>\<open>load_pre_crawler_settings\<close> is a class method: a manager that exists when it is
  called is the same afterwards, \<^verbatim>\<open>addons\<close> included. The calls it makes are
  \<open>load_object\<close> and the class hooks \<open>update_pre_crawler_settings\<close> only: it builds no
  instance and logs nothing. The settings change only through those hooks: when no hook
  was called, the settings are unchanged.
\<close>

theorem pre_crawler_phase_frame:
  "fst (snd (classmethod_load_pre_crawler_settings env self w)) = self \<and>
   (\<exists>es. events (snd (load_pre_crawler_settings env w)) = events w @ es
      \<and> list_all is_pre_crawler_event es
      \<and> (pre_hooked_ids es = []
           \<longrightarrow> settings (snd (load_pre_crawler_settings env w)) = settings w))"
proof
  show "fst (snd (classmethod_load_pre_crawler_settings env self w)) = self"
    by (simp add: classmethod_load_pre_crawler_settings_def split: prod.splits)
next
  show "\<exists>es. events (snd (load_pre_crawler_settings env w)) = events w @ es
      \<and> list_all is_pre_crawler_event es
      \<and> (pre_hooked_ids es = []
           \<longrightarrow> settings (snd (load_pre_crawler_settings env w)) = settings w)"
  proof (cases "build_component_list env (settings w ''ADDONS'')")
    case (Inl e)
    then show ?thesis by (simp add: load_pre_crawler_settings_def)
  next
    case (Inr xs)
    obtain r w' where run: "load_pre_crawler_settings_loop env xs w = (r, w')"
      by (cases "load_pre_crawler_settings_loop env xs w")
    from load_pre_crawler_settings_loop_shape [OF run] Inr run
    show ?thesis by (auto simp: load_pre_crawler_settings_def)
  qed
qed

theorem pre_crawler_phase_frame_witness:
  "fst (snd (classmethod_load_pre_crawler_settings demo_env
     \<lparr>crawler = (), addons = [''BetaInstance'']\<rparr>
     (demo_world [(''pkg.Plain'', 1), (''pkg.Alpha'', 2)])))
     = \<lparr>crawler = (), addons = [''BetaInstance'']\<rparr> \<and>
   events (snd (load_pre_crawler_settings demo_env
     (demo_world [(''pkg.Plain'', 1), (''pkg.Alpha'', 2)])))
     = [LoadObject ''pkg.Plain'', LoadObject ''pkg.Alpha''] \<and>
   pre_hooked_ids [LoadObject ''pkg.Plain'', LoadObject ''pkg.Alpha'' :: (setting, string) event]
     = [] \<and>
   settings (snd (load_pre_crawler_settings demo_env
     (demo_world [(''pkg.Plain'', 1), (''pkg.Alpha'', 2)])))
     = settings (demo_world [(''pkg.Plain'', 1), (''pkg.Alpha'', 2)])"
proof -
  define w where "w = demo_world [(''pkg.Plain'', 1), (''pkg.Alpha'', 2)]"
  define m :: "(string, unit) manager"
    where "m = \<lparr>crawler = (), addons = [''BetaInstance'']\<rparr>"
  define es :: "(setting, string) event list"
    where "es = [LoadObject ''pkg.Plain'', LoadObject ''pkg.Alpha'']"
  have ev: "events (snd (load_pre_crawler_settings demo_env w)) = es"
    unfolding w_def es_def by (simp add: run_defs demo_defs)
  have e: "events w = []"
    unfolding w_def by (simp add: demo_defs)
  have p: "pre_hooked_ids es = []"
    unfolding es_def by simp
  note T = pre_crawler_phase_frame [of demo_env m w]
  from T have M: "fst (snd (classmethod_load_pre_crawler_settings demo_env m w)) = m"
    by simp
  from T ev e p
  have S: "settings (snd (load_pre_crawler_settings demo_env w)) = settings w"
    by auto
  from M ev p S show ?thesis
    unfolding w_def m_def es_def by (intro conjI)
qed

subsection \<open>The iteration of \<^verbatim>\<open>load_settings\<close>, case by case\<close>

lemma world_events_update:
  "w\<lparr>events := E\<rparr> = \<lparr>settings = settings w, events = E\<rparr>"
  by (cases w) simp

lemma world_settings_update:
  "w\<lparr>settings := S\<rparr> = \<lparr>settings = S, events = events w\<rparr>"
  by (cases w) simp

lemmas world_updates = world_events_update world_settings_update

lemma load_settings_step_load_raises:
  "load_object env x = Inl e \<Longrightarrow>
   load_settings_step env x self w =
     except_NotConfigured x e self \<lparr>settings = settings w, events = events w @ [LoadObject x]\<rparr>"
  by (simp add: load_settings_step_def emit_def world_updates)

lemma load_settings_step_build_raises:
  "load_object env x = Inr c \<Longrightarrow>
   build_from_crawler env c (crawler self) (settings w) = (Inl e, s1) \<Longrightarrow>
   load_settings_step env x self w =
     except_NotConfigured x e self
       \<lparr>settings = s1, events = events w @ [LoadObject x, BuildFromCrawler x]\<rparr>"
  by (simp add: load_settings_step_def emit_def world_updates)

lemma load_settings_step_no_hook:
  "load_object env x = Inr c \<Longrightarrow>
   build_from_crawler env c (crawler self) (settings w) = (Inr addon, s1) \<Longrightarrow>
   update_settings env addon = None \<Longrightarrow>
   load_settings_step env x self w =
     (None, self\<lparr>addons := addons self @ [addon]\<rparr>,
      \<lparr>settings = s1, events = events w @ [LoadObject x, BuildFromCrawler x]\<rparr>)"
  by (simp add: load_settings_step_def emit_def world_updates)

lemma load_settings_step_hook_returns:
  "load_object env x = Inr c \<Longrightarrow>
   build_from_crawler env c (crawler self) (settings w) = (Inr addon, s1) \<Longrightarrow>
   update_settings env addon = Some hook \<Longrightarrow> hook s1 = (None, s2) \<Longrightarrow>
   load_settings_step env x self w =
     (None, self\<lparr>addons := addons self @ [addon]\<rparr>,
      \<lparr>settings = s2,
       events = events w @ [LoadObject x, BuildFromCrawler x, UpdateSettings x s1]\<rparr>)"
  by (simp add: load_settings_step_def emit_def world_updates)

lemma load_settings_step_hook_raises:
  "load_object env x = Inr c \<Longrightarrow>
   build_from_crawler env c (crawler self) (settings w) = (Inr addon, s1) \<Longrightarrow>
   update_settings env addon = Some hook \<Longrightarrow> hook s1 = (Some e, s2) \<Longrightarrow>
   load_settings_step env x self w =
     except_NotConfigured x e self
       \<lparr>settings = s2,
        events = events w @ [LoadObject x, BuildFromCrawler x, UpdateSettings x s1]\<rparr>"
  by (simp add: load_settings_step_def emit_def world_updates)

lemma except_NotConfigured_caught:
  "except_NotConfigured x (NotConfigured args) self w =
     (None, self,
      \<lparr>settings = settings w,
       events = events w @ (if args \<noteq> [] then [LogWarning x (hd args)] else [])\<rparr>)"
  by (simp add: emit_def world_updates)

lemma load_settings_loop_snoc:
  "load_settings_loop env pre self w = (None, self1, w1) \<Longrightarrow>
   load_settings_loop env (pre @ x # post) self w =
     (case load_settings_step env x self1 w1 of
        (Some e, self', w') \<Rightarrow> (Some e, self', w')
      | (None, self', w') \<Rightarrow> load_settings_loop env post self' w')"
  by (simp add: load_settings_loop_append)

lemma load_settings_loop_loaded:
  "load_settings_loop env xs self w = (None, self', w') \<Longrightarrow>
   loaded_ids (events w') = loaded_ids (events w) @ xs"
  by (drule load_settings_loop_shape) (auto simp: loaded_ids_append)

subsection \<open>Errors that are not \<^verbatim>\<open>NotConfigured\<close>\<close>

text \<open>
  C2. Let the loop of \<^verbatim>\<open>load_settings\<close> reach \<open>x\<close>, and let \<open>load_object\<close>, the constructor
  or \<open>update_settings\<close> of \<open>x\<close> raise an error that is not \<^verbatim>\<open>NotConfigured\<close>. Then the
  call raises that error; the class paths processed are those before \<open>x\<close> and \<open>x\<close>, none
  of those after it; and the manager is the one left by the iterations before \<open>x\<close>, so
  \<^verbatim>\<open>addons\<close> holds what was there at the call followed by the instances activated
  before \<open>x\<close>.
\<close>

theorem fatal_error_aborts_phase:
  assumes bcl: "build_component_list env (settings w ''ADDONS'') = Inr (pre @ x # post)"
    and pre: "load_settings_loop env pre self w = (None, self1, w1)"
    and fail:
      "load_object env x = Inl (Error msg) \<or>
       (\<exists>c s1. load_object env x = Inr c \<and>
          (build_from_crawler env c (crawler self1) (settings w1) = (Inl (Error msg), s1) \<or>
           (\<exists>addon hook s2.
              build_from_crawler env c (crawler self1) (settings w1) = (Inr addon, s1) \<and>
              update_settings env addon = Some hook \<and>
              hook s1 = (Some (Error msg), s2))))"
  shows "\<exists>w'. load_settings env self w = (Some (Error msg), self1, w')
           \<and> loaded_ids (events w') = loaded_ids (events w) @ pre @ [x]"
proof -
  have "\<exists>w'. load_settings_step env x self1 w1 = (Some (Error msg), self1, w')"
    using fail
    by (auto simp: load_settings_step_load_raises load_settings_step_build_raises
        load_settings_step_hook_raises)
  then obtain w' where step: "load_settings_step env x self1 w1 = (Some (Error msg), self1, w')"
    by blast
  from load_settings_step_shape(3) [OF step]
  have "loaded_ids (events w') = loaded_ids (events w1) @ [x]"
    by (auto simp: loaded_ids_append)
  with load_settings_loop_loaded [OF pre]
  have ids: "loaded_ids (events w') = loaded_ids (events w) @ pre @ [x]"
    by simp
  have "load_settings_loop env (pre @ x # post) self w = (Some (Error msg), self1, w')"
    using load_settings_loop_snoc [OF pre, of x post] step by simp
  with bcl have "load_settings env self w = (Some (Error msg), self1, w')"
    by (simp add: load_settings_def)
  with ids show ?thesis by blast
qed

theorem fatal_error_aborts_phase_witness:
  "build_component_list demo_env
     (settings (demo_world [(''pkg.Beta'', 1), (''pkg.Broken'', 2), (''pkg.Gamma'', 3)])
        ''ADDONS'')
     = Inr ([''pkg.Beta''] @ ''pkg.Broken'' # [''pkg.Gamma'']) \<and>
   fst (load_settings_loop demo_env [''pkg.Beta''] (AddonManager_init ())
     (demo_world [(''pkg.Beta'', 1), (''pkg.Broken'', 2), (''pkg.Gamma'', 3)])) = None \<and>
   load_object demo_env ''pkg.Broken'' = Inr ''Broken'' \<and>
   update_settings demo_env ''BrokenInstance''
     = Some (\<lambda>s. (Some (Error ''boom''), s(''HALF'' \<mapsto> Flag True))) \<and>
   fst (load_settings demo_env (AddonManager_init ())
     (demo_world [(''pkg.Beta'', 1), (''pkg.Broken'', 2), (''pkg.Gamma'', 3)]))
     = Some (Error ''boom'') \<and>
   addons (fst (snd (load_settings demo_env (AddonManager_init ())
     (demo_world [(''pkg.Beta'', 1), (''pkg.Broken'', 2), (''pkg.Gamma'', 3)]))))
     = [''BetaInstance''] \<and>
   loaded_ids (events (snd (snd (load_settings demo_env (AddonManager_init ())
     (demo_world [(''pkg.Beta'', 1), (''pkg.Broken'', 2), (''pkg.Gamma'', 3)])))))
     = [''pkg.Beta'', ''pkg.Broken'']"
proof -
  define w where "w = demo_world [(''pkg.Beta'', 1), (''pkg.Broken'', 2), (''pkg.Gamma'', 3)]"
  define m :: "(string, unit) manager" where "m = AddonManager_init ()"
  define pre where "pre = [''pkg.Beta'']"
  define x where "x = ''pkg.Broken''"
  define post where "post = [''pkg.Gamma'']"
  define s1 where "s1 = (settings w)(''ENABLED_FEATURE'' \<mapsto> Flag True)"
  define w1 :: "(setting, string) world" where "w1 = \<lparr>settings = s1,
    events = [LoadObject ''pkg.Beta'', BuildFromCrawler ''pkg.Beta'',
              UpdateSettings ''pkg.Beta'' (settings w)]\<rparr>"
  define m1 :: "(string, unit) manager"
    where "m1 = \<lparr>crawler = (), addons = [''BetaInstance'']\<rparr>"
  define msg where "msg = ''boom''"
  define hook :: "setting settings \<Rightarrow> exn option \<times> setting settings"
    where "hook = (\<lambda>s. (Some (Error ''boom''), s(''HALF'' \<mapsto> Flag True)))"
  have bcl: "build_component_list demo_env (settings w ''ADDONS'') = Inr (pre @ x # post)"
    unfolding w_def pre_def x_def post_def by (simp add: demo_defs)
  have pre: "load_settings_loop demo_env pre m w = (None, m1, w1)"
    unfolding w1_def s1_def w_def m_def m1_def pre_def by (simp add: run_defs demo_defs)
  have ld: "load_object demo_env x = Inr ''Broken''"
    unfolding x_def by (simp add: demo_defs)
  have bd: "build_from_crawler demo_env ''Broken'' (crawler m1) (settings w1)
      = (Inr ''BrokenInstance'', s1)"
    unfolding w1_def by (simp add: demo_defs)
  have us: "update_settings demo_env ''BrokenInstance'' = Some hook"
    unfolding hook_def by (simp add: demo_defs)
  have hk: "hook s1 = (Some (Error msg), s1(''HALF'' \<mapsto> Flag True))"
    unfolding hook_def msg_def by simp
  have fail: "load_object demo_env x = Inl (Error msg) \<or>
       (\<exists>c s1. load_object demo_env x = Inr c \<and>
          (build_from_crawler demo_env c (crawler m1) (settings w1) = (Inl (Error msg), s1) \<or>
           (\<exists>addon hook s2.
              build_from_crawler demo_env c (crawler m1) (settings w1) = (Inr addon, s1) \<and>
              update_settings demo_env addon = Some hook \<and>
              hook s1 = (Some (Error msg), s2))))"
    using ld bd us hk by blast
  have ev: "events w = []"
    unfolding w_def by (simp add: demo_defs)
  note T = fatal_error_aborts_phase [OF bcl pre fail]
  from T ev obtain w' where run: "load_settings demo_env m w = (Some (Error msg), m1, w')"
      and ids: "loaded_ids (events w') = pre @ [x]"
    by auto
  have c1: "fst (load_settings_loop demo_env pre m w) = None"
    using pre by simp
  have c2: "fst (load_settings demo_env m w) = Some (Error msg)"
    using run by simp
  have c3: "addons (fst (snd (load_settings demo_env m w))) = [''BetaInstance'']"
    using run by (simp add: m1_def)
  have c4: "loaded_ids (events (snd (snd (load_settings demo_env m w)))) = pre @ [x]"
    using run ids by simp
  have c5: "pre @ [x] = [''pkg.Beta'', ''pkg.Broken'']"
    unfolding pre_def x_def by simp
  from bcl c1 ld us c2 c3 c4 [unfolded c5] show ?thesis
    unfolding w_def m_def pre_def x_def post_def msg_def hook_def by (intro conjI)
qed

subsection \<open>Where \<^verbatim>\<open>NotConfigured\<close> is caught\<close>

text \<open>
  C3 (as the code has it). In \<^verbatim>\<open>load_settings\<close> the call of \<open>load_object\<close> stands inside the
  \<^verbatim>\<open>try\<close> statement, with the constructor and the hook. A \<^verbatim>\<open>NotConfigured\<close> raised by
  \<open>load_object\<close> is caught like the others: the iteration ends normally, the manager is
  unchanged, a warning is logged when \<^verbatim>\<open>e.args\<close> is not empty. Any other error raised by
  \<open>load_object\<close> leaves the call. Whatever the three steps do, an iteration never raises
  \<^verbatim>\<open>NotConfigured\<close>.
\<close>

theorem notconfigured_caught_in_whole_try:
  "(load_object env x = Inl (NotConfigured args) \<longrightarrow>
      load_settings_step env x self w =
        (None, self,
         \<lparr>settings = settings w,
          events = events w @ [LoadObject x]
            @ (if args \<noteq> [] then [LogWarning x (hd args)] else [])\<rparr>))
   \<and> (load_object env x = Inl (Error msg) \<longrightarrow>
      load_settings_step env x self w =
        (Some (Error msg), self,
         \<lparr>settings = settings w, events = events w @ [LoadObject x]\<rparr>))
   \<and> (\<forall>a. fst (load_settings_step env x self w) \<noteq> Some (NotConfigured a))"
proof (intro conjI impI)
  assume "load_object env x = Inl (NotConfigured args)"
  then show "load_settings_step env x self w =
        (None, self,
         \<lparr>settings = settings w,
          events = events w @ [LoadObject x]
            @ (if args \<noteq> [] then [LogWarning x (hd args)] else [])\<rparr>)"
    by (simp add: load_settings_step_load_raises emit_def world_updates)
next
  assume "load_object env x = Inl (Error msg)"
  then show "load_settings_step env x self w =
        (Some (Error msg), self,
         \<lparr>settings = settings w, events = events w @ [LoadObject x]\<rparr>)"
    by (simp add: load_settings_step_load_raises)
next
  show "\<forall>a. fst (load_settings_step env x self w) \<noteq> Some (NotConfigured a)"
    using load_settings_step_shape(4) [of env x self w]
    by (cases "load_settings_step env x self w") auto
qed

theorem notconfigured_caught_in_whole_try_witness:
  "load_object demo_env ''pkg.Lazy'' = Inl (NotConfigured [''import-time opt-out'']) \<and>
   load_settings_step demo_env ''pkg.Lazy'' (AddonManager_init ())
       (demo_world [(''pkg.Lazy'', 100)])
     = (None, AddonManager_init (),
        \<lparr>settings = settings (demo_world [(''pkg.Lazy'', 100)]),
         events = [LoadObject ''pkg.Lazy'',
                   LogWarning ''pkg.Lazy'' ''import-time opt-out'']\<rparr>) \<and>
   load_object demo_env ''pkg.Missing'' = Inl (Error ''cannot import'') \<and>
   load_settings_step demo_env ''pkg.Missing'' (AddonManager_init ())
       (demo_world [(''pkg.Lazy'', 100)])
     = (Some (Error ''cannot import''), AddonManager_init (),
        \<lparr>settings = settings (demo_world [(''pkg.Lazy'', 100)]),
         events = [LoadObject ''pkg.Missing'']\<rparr>)"
proof -
  define w where "w = demo_world [(''pkg.Lazy'', 100)]"
  define m :: "(string, unit) manager" where "m = AddonManager_init ()"
  define x where "x = ''pkg.Lazy''"
  define y where "y = ''pkg.Missing''"
  define args where "args = [''import-time opt-out'']"
  define msg where "msg = ''cannot import''"
  have l1: "load_object demo_env x = Inl (NotConfigured args)"
    unfolding x_def args_def by (simp add: demo_defs)
  have l2: "load_object demo_env y = Inl (Error msg)"
    unfolding y_def msg_def by (simp add: demo_defs)
  have ev: "events w = []"
    unfolding w_def by (simp add: demo_defs)
  have ne: "args \<noteq> []" "hd args = ''import-time opt-out''"
    unfolding args_def by simp_all
  from notconfigured_caught_in_whole_try [of demo_env x args m w] l1 ev ne
  have s1: "load_settings_step demo_env x m w =
      (None, m, \<lparr>settings = settings w,
         events = [LoadObject x, LogWarning x ''import-time opt-out'']\<rparr>)"
    by simp
  from notconfigured_caught_in_whole_try [of demo_env y _ m w msg] l2 ev
  have s2: "load_settings_step demo_env y m w =
      (Some (Error msg), m, \<lparr>settings = settings w, events = [LoadObject y]\<rparr>)"
    by simp
  from l1 s1 l2 s2 show ?thesis
    unfolding w_def m_def x_def y_def args_def msg_def by (intro conjI)
qed

text \<open>
  A class path whose import raises \<^verbatim>\<open>NotConfigured\<close>, followed by one that loads: the call
  returns normally and the second add-on is activated.
\<close>

theorem load_object_notconfigured_counterexample:
  "load_object demo_env ''pkg.Lazy'' = Inl (NotConfigured [''import-time opt-out'']) \<and>
   fst (load_settings demo_env (AddonManager_init ())
     (demo_world [(''pkg.Lazy'', 100), (''pkg.Beta'', 200)])) = None \<and>
   loaded_ids (events (snd (snd (load_settings demo_env (AddonManager_init ())
     (demo_world [(''pkg.Lazy'', 100), (''pkg.Beta'', 200)])))))
     = [''pkg.Lazy'', ''pkg.Beta''] \<and>
   addons (fst (snd (load_settings demo_env (AddonManager_init ())
     (demo_world [(''pkg.Lazy'', 100), (''pkg.Beta'', 200)])))) = [''BetaInstance'']"
  by (simp add: run_defs demo_defs)

subsection \<open>The hook \<open>update_settings\<close>\<close>

text \<open>
  C8 (as the code has it). After \<open>load_object\<close> and the constructor have succeeded, the hook
  \<open>update_settings\<close> is called, with the settings as the constructor left them, exactly
  when the instance has it. Without a hook, or when the hook returns normally, the
  instance is appended to \<^verbatim>\<open>addons\<close>. When the hook raises \<^verbatim>\<open>NotConfigured\<close> the instance is
  dropped and the iteration ends normally, with a warning when \<^verbatim>\<open>e.args\<close> is not empty.
  When the hook raises any other error the instance is not appended either and the error
  leaves the call.
\<close>

theorem post_hook_outcomes:
  assumes ld: "load_object env x = Inr c"
    and bd: "build_from_crawler env c (crawler self) (settings w) = (Inr addon, s1)"
  shows "(update_settings env addon = None \<longrightarrow>
            load_settings_step env x self w =
              (None, self\<lparr>addons := addons self @ [addon]\<rparr>,
               \<lparr>settings = s1, events = events w @ [LoadObject x, BuildFromCrawler x]\<rparr>))
       \<and> (\<forall>hook s2. update_settings env addon = Some hook \<longrightarrow>
            (hook s1 = (None, s2) \<longrightarrow>
               load_settings_step env x self w =
                 (None, self\<lparr>addons := addons self @ [addon]\<rparr>,
                  \<lparr>settings = s2,
                   events = events w
                     @ [LoadObject x, BuildFromCrawler x, UpdateSettings x s1]\<rparr>))
          \<and> (\<forall>args. hook s1 = (Some (NotConfigured args), s2) \<longrightarrow>
               load_settings_step env x self w =
                 (None, self,
                  \<lparr>settings = s2,
                   events = events w
                     @ [LoadObject x, BuildFromCrawler x, UpdateSettings x s1]
                     @ (if args \<noteq> [] then [LogWarning x (hd args)] else [])\<rparr>))
          \<and> (\<forall>msg. hook s1 = (Some (Error msg), s2) \<longrightarrow>
               load_settings_step env x self w =
                 (Some (Error msg), self,
                  \<lparr>settings = s2,
                   events = events w
                     @ [LoadObject x, BuildFromCrawler x, UpdateSettings x s1]\<rparr>)))"
proof (intro conjI allI impI)
  assume "update_settings env addon = None"
  from load_settings_step_no_hook [OF ld bd this]
  show "load_settings_step env x self w =
      (None, self\<lparr>addons := addons self @ [addon]\<rparr>,
       \<lparr>settings = s1, events = events w @ [LoadObject x, BuildFromCrawler x]\<rparr>)" .
next
  fix hook s2
  assume "update_settings env addon = Some hook" "hook s1 = (None, s2)"
  from load_settings_step_hook_returns [OF ld bd this]
  show "load_settings_step env x self w =
      (None, self\<lparr>addons := addons self @ [addon]\<rparr>,
       \<lparr>settings = s2,
        events = events w @ [LoadObject x, BuildFromCrawler x, UpdateSettings x s1]\<rparr>)" .
next
  fix hook s2 args
  assume "update_settings env addon = Some hook" "hook s1 = (Some (NotConfigured args), s2)"
  from load_settings_step_hook_raises [OF ld bd this]
  show "load_settings_step env x self w =
      (None, self,
       \<lparr>settings = s2,
        events = events w @ [LoadObject x, BuildFromCrawler x, UpdateSettings x s1]
          @ (if args \<noteq> [] then [LogWarning x (hd args)] else [])\<rparr>)"
    by (simp add: emit_def world_updates)
next
  fix hook s2 msg
  assume "update_settings env addon = Some hook" "hook s1 = (Some (Error msg), s2)"
  from load_settings_step_hook_raises [OF ld bd this]
  show "load_settings_step env x self w =
      (Some (Error msg), self,
       \<lparr>settings = s2,
        events = events w @ [LoadObject x, BuildFromCrawler x, UpdateSettings x s1]\<rparr>)"
    by simp
qed

theorem post_hook_outcomes_witness:
  "update_settings demo_env ''PlainInstance'' = None \<and>
   fst (load_settings_step demo_env ''pkg.Plain'' (AddonManager_init ()) (demo_world [])) = None \<and>
   addons (fst (snd (load_settings_step demo_env ''pkg.Plain'' (AddonManager_init ())
     (demo_world [])))) = [''PlainInstance''] \<and>
   fst (load_settings_step demo_env ''pkg.Beta'' (AddonManager_init ()) (demo_world [])) = None \<and>
   addons (fst (snd (load_settings_step demo_env ''pkg.Beta'' (AddonManager_init ())
     (demo_world [])))) = [''BetaInstance''] \<and>
   fst (load_settings_step demo_env ''pkg.Shy'' (AddonManager_init ()) (demo_world [])) = None \<and>
   addons (fst (snd (load_settings_step demo_env ''pkg.Shy'' (AddonManager_init ())
     (demo_world [])))) = [] \<and>
   fst (load_settings_step demo_env ''pkg.Broken'' (AddonManager_init ()) (demo_world []))
     = Some (Error ''boom'') \<and>
   addons (fst (snd (load_settings_step demo_env ''pkg.Broken'' (AddonManager_init ())
     (demo_world [])))) = []"
proof -
  define w where "w = demo_world []"
  define m :: "(string, unit) manager" where "m = AddonManager_init ()"
  define s where "s = settings w"
  define plain where "plain = ''pkg.Plain''"
  define beta where "beta = ''pkg.Beta''"
  define shy where "shy = ''pkg.Shy''"
  define broken where "broken = ''pkg.Broken''"
  define hb :: "setting settings \<Rightarrow> exn option \<times> setting settings"
    where "hb = (\<lambda>s. (None, s(''ENABLED_FEATURE'' \<mapsto> Flag True)))"
  define hs :: "setting settings \<Rightarrow> exn option \<times> setting settings"
    where "hs = (\<lambda>s. (Some (NotConfigured []), s))"
  define hk :: "setting settings \<Rightarrow> exn option \<times> setting settings"
    where "hk = (\<lambda>s. (Some (Error ''boom''), s(''HALF'' \<mapsto> Flag True)))"
  have am: "addons m = []"
    unfolding m_def by (simp add: AddonManager_init_def)
  have ld: "load_object demo_env plain = Inr ''Plain''" "load_object demo_env beta = Inr ''Beta''"
      "load_object demo_env shy = Inr ''Shy''" "load_object demo_env broken = Inr ''Broken''"
    unfolding plain_def beta_def shy_def broken_def by (simp_all add: demo_defs)
  have bd: "build_from_crawler demo_env ''Plain'' (crawler m) (settings w)
        = (Inr ''PlainInstance'', s)"
      "build_from_crawler demo_env ''Beta'' (crawler m) (settings w) = (Inr ''BetaInstance'', s)"
      "build_from_crawler demo_env ''Shy'' (crawler m) (settings w) = (Inr ''ShyInstance'', s)"
      "build_from_crawler demo_env ''Broken'' (crawler m) (settings w)
        = (Inr ''BrokenInstance'', s)"
    unfolding s_def by (simp_all add: demo_defs)
  have us: "update_settings demo_env ''PlainInstance'' = None"
      "update_settings demo_env ''BetaInstance'' = Some hb"
      "update_settings demo_env ''ShyInstance'' = Some hs"
      "update_settings demo_env ''BrokenInstance'' = Some hk"
    unfolding hb_def hs_def hk_def by (simp_all add: demo_defs)
  have run: "hb s = (None, s(''ENABLED_FEATURE'' \<mapsto> Flag True))"
      "hs s = (Some (NotConfigured []), s)"
      "hk s = (Some (Error ''boom''), s(''HALF'' \<mapsto> Flag True))"
    unfolding hb_def hs_def hk_def by simp_all
  from post_hook_outcomes [OF ld(1) bd(1)] us(1)
  have p: "fst (load_settings_step demo_env plain m w) = None"
      "addons (fst (snd (load_settings_step demo_env plain m w))) = [''PlainInstance'']"
    by (simp_all add: am)
  from post_hook_outcomes [OF ld(2) bd(2)] us(2) run(1)
  have b: "fst (load_settings_step demo_env beta m w) = None"
      "addons (fst (snd (load_settings_step demo_env beta m w))) = [''BetaInstance'']"
    by (simp_all add: am)
  from post_hook_outcomes [OF ld(3) bd(3)] us(3) run(2)
  have y: "fst (load_settings_step demo_env shy m w) = None"
      "addons (fst (snd (load_settings_step demo_env shy m w))) = []"
    by (simp_all add: am)
  from post_hook_outcomes [OF ld(4) bd(4)] us(4) run(3)
  have k: "fst (load_settings_step demo_env broken m w) = Some (Error ''boom'')"
      "addons (fst (snd (load_settings_step demo_env broken m w))) = []"
    by (simp_all add: am)
  from us(1) p b y k show ?thesis
    unfolding w_def m_def plain_def beta_def shy_def broken_def by (intro conjI)
qed

text \<open>
  An instance that is constructed, and whose hook raises an error other than
  \<^verbatim>\<open>NotConfigured\<close>: it is not appended to \<^verbatim>\<open>addons\<close>.
\<close>

theorem post_hook_error_counterexample:
  "load_object demo_env ''pkg.Broken'' = Inr ''Broken'' \<and>
   fst (build_from_crawler demo_env ''Broken'' () (settings (demo_world [(''pkg.Broken'', 100)])))
     = Inr ''BrokenInstance'' \<and>
   update_settings demo_env ''BrokenInstance''
     = Some (\<lambda>s. (Some (Error ''boom''), s(''HALF'' \<mapsto> Flag True))) \<and>
   fst (load_settings demo_env (AddonManager_init ()) (demo_world [(''pkg.Broken'', 100)]))
     = Some (Error ''boom'') \<and>
   hooked_ids (events (snd (snd (load_settings demo_env (AddonManager_init ())
     (demo_world [(''pkg.Broken'', 100)]))))) = [''pkg.Broken''] \<and>
   addons (fst (snd (load_settings demo_env (AddonManager_init ())
     (demo_world [(''pkg.Broken'', 100)])))) = []"
  by (simp add: run_defs demo_defs)

subsection \<open>The iteration of \<^verbatim>\<open>load_pre_crawler_settings\<close>, case by case\<close>

lemma load_pre_crawler_settings_step_load_raises:
  "load_object env x = Inl e \<Longrightarrow>
   load_pre_crawler_settings_step env x w =
     (Some e, \<lparr>settings = settings w, events = events w @ [LoadObject x]\<rparr>)"
  by (simp add: load_pre_crawler_settings_step_def emit_def world_updates)


lemma load_pre_crawler_settings_step_hook:
  "load_object env x = Inr c \<Longrightarrow> update_pre_crawler_settings env c = Some hook \<Longrightarrow>
   hook (settings w) = (r, s1) \<Longrightarrow>
   load_pre_crawler_settings_step env x w =
     (r, \<lparr>settings = s1,
          events = events w @ [LoadObject x, UpdatePreCrawlerSettings x (settings w)]\<rparr>)"
  by (simp add: load_pre_crawler_settings_step_def emit_def world_updates)

lemma load_pre_crawler_settings_loop_snoc:
  "load_pre_crawler_settings_loop env pre w = (None, w1) \<Longrightarrow>
   load_pre_crawler_settings_loop env (pre @ x # post) w =
     (case load_pre_crawler_settings_step env x w1 of
        (Some e, w') \<Rightarrow> (Some e, w')
      | (None, w') \<Rightarrow> load_pre_crawler_settings_loop env post w')"
  by (simp add: load_pre_crawler_settings_loop_append)

lemma load_pre_crawler_settings_loop_loaded:
  "load_pre_crawler_settings_loop env xs w = (None, w') \<Longrightarrow>
   loaded_ids (events w') = loaded_ids (events w) @ xs"
  by (drule load_pre_crawler_settings_loop_shape) (auto simp: loaded_ids_append)

subsection \<open>Nothing is caught before the crawler exists\<close>

text \<open>
  C6. Let the loop of \<^verbatim>\<open>load_pre_crawler_settings\<close> reach \<open>x\<close>, and let \<open>load_object\<close> or the
  class hook \<open>update_pre_crawler_settings\<close> of \<open>x\<close> raise an exception \<open>e\<close>, of any kind,
  \<^verbatim>\<open>NotConfigured\<close> included. Then the call raises \<open>e\<close>, and the class paths processed are
  those before \<open>x\<close> and \<open>x\<close>: none of those after it.
\<close>

theorem pre_crawler_errors_propagate:
  assumes bcl: "build_component_list env (settings w ''ADDONS'') = Inr (pre @ x # post)"
    and pre: "load_pre_crawler_settings_loop env pre w = (None, w1)"
    and fail:
      "load_object env x = Inl e \<or>
       (\<exists>c hook s1. load_object env x = Inr c \<and>
          update_pre_crawler_settings env c = Some hook \<and>
          hook (settings w1) = (Some e, s1))"
  shows "\<exists>w'. load_pre_crawler_settings env w = (Some e, w')
           \<and> loaded_ids (events w') = loaded_ids (events w) @ pre @ [x]"
proof -
  have "\<exists>w'. load_pre_crawler_settings_step env x w1 = (Some e, w')"
    using fail
    by (auto simp: load_pre_crawler_settings_step_load_raises
        load_pre_crawler_settings_step_hook)
  then obtain w' where step: "load_pre_crawler_settings_step env x w1 = (Some e, w')"
    by blast
  from load_pre_crawler_settings_step_shape [OF step]
  have "loaded_ids (events w') = loaded_ids (events w1) @ [x]"
    by (auto simp: loaded_ids_append)
  with load_pre_crawler_settings_loop_loaded [OF pre]
  have ids: "loaded_ids (events w') = loaded_ids (events w) @ pre @ [x]"
    by simp
  have "load_pre_crawler_settings_loop env (pre @ x # post) w = (Some e, w')"
    using load_pre_crawler_settings_loop_snoc [OF pre, of x post] step by simp
  with bcl have "load_pre_crawler_settings env w = (Some e, w')"
    by (simp add: load_pre_crawler_settings_def)
  with ids show ?thesis by blast
qed

theorem pre_crawler_errors_propagate_witness:
  "build_component_list demo_env
     (settings (demo_world [(''pkg.Beta'', 1), (''pkg.Broken'', 2), (''pkg.Gamma'', 3)])
        ''ADDONS'')
     = Inr ([''pkg.Beta''] @ ''pkg.Broken'' # [''pkg.Gamma'']) \<and>
   fst (load_pre_crawler_settings_loop demo_env [''pkg.Beta'']
     (demo_world [(''pkg.Beta'', 1), (''pkg.Broken'', 2), (''pkg.Gamma'', 3)])) = None \<and>
   load_object demo_env ''pkg.Broken'' = Inr ''Broken'' \<and>
   update_pre_crawler_settings demo_env ''Broken''
     = Some (\<lambda>s. (Some (NotConfigured [''not now'']), s)) \<and>
   fst (load_pre_crawler_settings demo_env
     (demo_world [(''pkg.Beta'', 1), (''pkg.Broken'', 2), (''pkg.Gamma'', 3)]))
     = Some (NotConfigured [''not now'']) \<and>
   loaded_ids (events (snd (load_pre_crawler_settings demo_env
     (demo_world [(''pkg.Beta'', 1), (''pkg.Broken'', 2), (''pkg.Gamma'', 3)]))))
     = [''pkg.Beta'', ''pkg.Broken'']"
proof -
  define w where "w = demo_world [(''pkg.Beta'', 1), (''pkg.Broken'', 2), (''pkg.Gamma'', 3)]"
  define pre where "pre = [''pkg.Beta'']"
  define x where "x = ''pkg.Broken''"
  define post where "post = [''pkg.Gamma'']"
  define s1 where "s1 = (settings w)(''K'' \<mapsto> Number 1)"
  define w1 :: "(setting, string) world" where "w1 = \<lparr>settings = s1,
    events = [LoadObject ''pkg.Beta'', UpdatePreCrawlerSettings ''pkg.Beta'' (settings w)]\<rparr>"
  define e where "e = NotConfigured [''not now'']"
  define hook :: "setting settings \<Rightarrow> exn option \<times> setting settings"
    where "hook = (\<lambda>s. (Some (NotConfigured [''not now'']), s))"
  have bcl: "build_component_list demo_env (settings w ''ADDONS'') = Inr (pre @ x # post)"
    unfolding w_def pre_def x_def post_def by (simp add: demo_defs)
  have pre: "load_pre_crawler_settings_loop demo_env pre w = (None, w1)"
    unfolding w1_def s1_def w_def pre_def by (simp add: run_defs demo_defs)
  have ld: "load_object demo_env x = Inr ''Broken''"
    unfolding x_def by (simp add: demo_defs)
  have us: "update_pre_crawler_settings demo_env ''Broken'' = Some hook"
    unfolding hook_def by (simp add: demo_defs)
  have hk: "hook (settings w1) = (Some e, settings w1)"
    unfolding hook_def e_def by simp
  have fail: "load_object demo_env x = Inl e \<or>
       (\<exists>c hook s1. load_object demo_env x = Inr c \<and>
          update_pre_crawler_settings demo_env c = Some hook \<and>
          hook (settings w1) = (Some e, s1))"
    using ld us hk by blast
  have ev: "events w = []"
    unfolding w_def by (simp add: demo_defs)
  note T = pre_crawler_errors_propagate [OF bcl pre fail]
  from T ev obtain w' where run: "load_pre_crawler_settings demo_env w = (Some e, w')"
      and ids: "loaded_ids (events w') = pre @ [x]"
    by auto
  have c1: "fst (load_pre_crawler_settings_loop demo_env pre w) = None"
    using pre by simp
  have c2: "fst (load_pre_crawler_settings demo_env w) = Some e"
    using run by simp
  have c5: "pre @ [x] = [''pkg.Beta'', ''pkg.Broken'']"
    unfolding pre_def x_def by simp
  have c4: "loaded_ids (events (snd (load_pre_crawler_settings demo_env w)))
      = [''pkg.Beta'', ''pkg.Broken'']"
    using run ids c5 by simp
  from bcl c1 ld us c2 c4 show ?thesis
    unfolding w_def pre_def x_def post_def e_def hook_def by (intro conjI)
qed

subsection \<open>The scenario of the two add-ons\<close>

text \<open>
  C9. The settings give the resolver order \<^verbatim>\<open>pkg.Alpha\<close>, \<^verbatim>\<open>pkg.Beta\<close>; the constructor of
  Alpha raises \<^verbatim>\<open>NotConfigured("no optional dependency")\<close>, Beta is constructed and its
  \<open>update_settings\<close> sets \<^verbatim>\<open>ENABLED_FEATURE\<close>. On a new manager \<^verbatim>\<open>load_settings\<close> returns
  normally, logs the warning for \<^verbatim>\<open>pkg.Alpha\<close> with that reason, leaves \<^verbatim>\<open>addons\<close> equal to
  the list of the one instance of Beta, and leaves \<^verbatim>\<open>ENABLED_FEATURE\<close> set in the settings.
\<close>

theorem alpha_beta_scenario:
  assumes bcl: "build_component_list env (settings w ''ADDONS'')
                  = Inr [''pkg.Alpha'', ''pkg.Beta'']"
    and la: "load_object env ''pkg.Alpha'' = Inr alpha"
    and lb: "load_object env ''pkg.Beta'' = Inr beta"
    and ba: "build_from_crawler env alpha k (settings w)
               = (Inl (NotConfigured [''no optional dependency'']), s1)"
    and bb: "build_from_crawler env beta k s1 = (Inr beta_instance, s2)"
    and us: "update_settings env beta_instance = Some hook"
    and hk: "hook s2 = (None, s2(''ENABLED_FEATURE'' \<mapsto> true))"
  shows "load_settings env (AddonManager_init k) w =
           (None, \<lparr>crawler = k, addons = [beta_instance]\<rparr>,
            \<lparr>settings = s2(''ENABLED_FEATURE'' \<mapsto> true),
             events = events w @
               [LoadObject ''pkg.Alpha'', BuildFromCrawler ''pkg.Alpha'',
                LogWarning ''pkg.Alpha'' ''no optional dependency'',
                LoadObject ''pkg.Beta'', BuildFromCrawler ''pkg.Beta'',
                UpdateSettings ''pkg.Beta'' s2,
                LogInfo [beta_instance]]\<rparr>)"
proof -
  let ?m = "AddonManager_init k :: ('c, 'd) manager"
  let ?w1 = "\<lparr>settings = s1,
      events = events w @ [LoadObject ''pkg.Alpha'', BuildFromCrawler ''pkg.Alpha'',
        LogWarning ''pkg.Alpha'' ''no optional dependency'']\<rparr>"
  have ck: "crawler ?m = k" "addons ?m = []"
    by (simp_all add: AddonManager_init_def)
  have a: "load_settings_step env ''pkg.Alpha'' ?m w = (None, ?m, ?w1)"
    using load_settings_step_build_raises [OF la, of ?m w _ s1] ba
    by (simp add: ck emit_def world_updates)
  have b: "load_settings_step env ''pkg.Beta'' ?m ?w1 =
      (None, \<lparr>crawler = k, addons = [beta_instance]\<rparr>,
       \<lparr>settings = s2(''ENABLED_FEATURE'' \<mapsto> true),
        events = events ?w1 @ [LoadObject ''pkg.Beta'', BuildFromCrawler ''pkg.Beta'',
          UpdateSettings ''pkg.Beta'' s2]\<rparr>)"
    using load_settings_step_hook_returns [OF lb, of ?m ?w1 beta_instance s2 hook] bb us hk
    by (simp add: ck AddonManager_init_def)
  show ?thesis
    using bcl a b by (simp add: load_settings_def emit_def world_updates)
qed

theorem alpha_beta_scenario_witness:
  "settings (demo_world [(''pkg.Alpha'', 100), (''pkg.Beta'', 200)]) ''ADDONS''
     = Some (Priorities [(''pkg.Alpha'', 100), (''pkg.Beta'', 200)]) \<and>
   build_component_list demo_env
     (settings (demo_world [(''pkg.Alpha'', 100), (''pkg.Beta'', 200)]) ''ADDONS'')
     = Inr [''pkg.Alpha'', ''pkg.Beta''] \<and>
   load_object demo_env ''pkg.Alpha'' = Inr ''Alpha'' \<and>
   load_object demo_env ''pkg.Beta'' = Inr ''Beta'' \<and>
   build_from_crawler demo_env ''Alpha'' ()
     (settings (demo_world [(''pkg.Alpha'', 100), (''pkg.Beta'', 200)]))
     = (Inl (NotConfigured [''no optional dependency'']),
        settings (demo_world [(''pkg.Alpha'', 100), (''pkg.Beta'', 200)])) \<and>
   build_from_crawler demo_env ''Beta'' ()
     (settings (demo_world [(''pkg.Alpha'', 100), (''pkg.Beta'', 200)]))
     = (Inr ''BetaInstance'',
        settings (demo_world [(''pkg.Alpha'', 100), (''pkg.Beta'', 200)])) \<and>
   update_settings demo_env ''BetaInstance''
     = Some (\<lambda>s. (None, s(''ENABLED_FEATURE'' \<mapsto> Flag True))) \<and>
   load_settings demo_env (AddonManager_init ())
     (demo_world [(''pkg.Alpha'', 100), (''pkg.Beta'', 200)])
     = (None, \<lparr>crawler = (), addons = [''BetaInstance'']\<rparr>,
        \<lparr>settings = (settings (demo_world [(''pkg.Alpha'', 100), (''pkg.Beta'', 200)]))
             (''ENABLED_FEATURE'' \<mapsto> Flag True),
         events =
           [LoadObject ''pkg.Alpha'', BuildFromCrawler ''pkg.Alpha'',
            LogWarning ''pkg.Alpha'' ''no optional dependency'',
            LoadObject ''pkg.Beta'', BuildFromCrawler ''pkg.Beta'',
            UpdateSettings ''pkg.Beta''
              (settings (demo_world [(''pkg.Alpha'', 100), (''pkg.Beta'', 200)])),
            LogInfo [''BetaInstance'']]\<rparr>)"
proof -
  define w where "w = demo_world [(''pkg.Alpha'', 100), (''pkg.Beta'', 200)]"
  define hook :: "setting settings \<Rightarrow> exn option \<times> setting settings"
    where "hook = (\<lambda>s. (None, s(''ENABLED_FEATURE'' \<mapsto> Flag True)))"
  have ad: "settings w ''ADDONS'' = Some (Priorities [(''pkg.Alpha'', 100), (''pkg.Beta'', 200)])"
    unfolding w_def by (simp add: demo_defs)
  have bcl: "build_component_list demo_env (settings w ''ADDONS'')
      = Inr [''pkg.Alpha'', ''pkg.Beta'']"
    unfolding w_def by (simp add: demo_defs)
  have la: "load_object demo_env ''pkg.Alpha'' = Inr ''Alpha''"
    by (simp add: demo_defs)
  have lb: "load_object demo_env ''pkg.Beta'' = Inr ''Beta''"
    by (simp add: demo_defs)
  have ba: "build_from_crawler demo_env ''Alpha'' () (settings w)
      = (Inl (NotConfigured [''no optional dependency'']), settings w)"
    by (simp add: demo_defs)
  have bb: "build_from_crawler demo_env ''Beta'' () (settings w)
      = (Inr ''BetaInstance'', settings w)"
    by (simp add: demo_defs)
  have us: "update_settings demo_env ''BetaInstance'' = Some hook"
    unfolding hook_def by (simp add: demo_defs)
  have hk: "hook (settings w) = (None, (settings w)(''ENABLED_FEATURE'' \<mapsto> Flag True))"
    unfolding hook_def by simp
  have ev: "events w = []"
    unfolding w_def by (simp add: demo_defs)
  note T = alpha_beta_scenario [OF bcl la lb ba bb us hk]
  have run: "load_settings demo_env (AddonManager_init ()) w
     = (None, \<lparr>crawler = (), addons = [''BetaInstance'']\<rparr>,
        \<lparr>settings = (settings w)(''ENABLED_FEATURE'' \<mapsto> Flag True),
         events =
           [LoadObject ''pkg.Alpha'', BuildFromCrawler ''pkg.Alpha'',
            LogWarning ''pkg.Alpha'' ''no optional dependency'',
            LoadObject ''pkg.Beta'', BuildFromCrawler ''pkg.Beta'',
            UpdateSettings ''pkg.Beta'' (settings w),
            LogInfo [''BetaInstance'']]\<rparr>)"
    unfolding T ev by simp
  from ad bcl la lb ba bb us run show ?thesis
    unfolding w_def hook_def by (intro conjI)
qed

subsection \<open>Invariants of the settings\<close>



















subsection \<open>Which hooks are called, and when\<close>






subsection \<open>Order of processing in the two methods\<close>




subsection \<open>A constructor that raises \<^verbatim>\<open>NotConfigured\<close>\<close>











end
